theory Spec2Isabelle
  imports Main "HOL-Library.AList"
begin

section \<open>Events, reminders and the in-memory reminder service\<close>

text \<open>
  A shallow embedding of the reminder logic of the repository: the server actions
  \<^verbatim>\<open>createReminder\<close>, \<^verbatim>\<open>updateReminder\<close>, \<^verbatim>\<open>createOrUpdateReminder\<close>,
  \<^verbatim>\<open>deleteReminder\<close> (reminder actions), \<^verbatim>\<open>updateEvent\<close> (event actions) and the class
  \<^verbatim>\<open>MockReminderService\<close> (\<^verbatim>\<open>lib/reminder-job.ts\<close>).

  Modelling decisions.
  \<^item> A JavaScript \<^verbatim>\<open>Date\<close> is its \<^verbatim>\<open>getTime()\<close>, an integer number of milliseconds (the
    range of a \<^verbatim>\<open>Date\<close>, in which subtraction of two instants is exact, is not bounded here). A
    \<^verbatim>\<open>Date\<close> that reaches a server action from outside may be an Invalid Date; such an input
    is \<open>None\<close>. Dates read back from the store are always valid.
  \<^item> The relational store behind \<^verbatim>\<open>prisma\<close> is a pair of row lists; \<^verbatim>\<open>findFirst\<close> is
    \<open>find\<close>, \<^verbatim>\<open>update\<close> and \<^verbatim>\<open>delete\<close> address rows by their id. The id that the store
    generates for a new row is an argument of the operation that creates the row.
  \<^item> \<^verbatim>\<open>Map<string, ReminderJob>\<close> is an association list in insertion order:
    \<^verbatim>\<open>set\<close> is \<open>AList.update\<close>, \<^verbatim>\<open>delete\<close> is \<open>AList.delete\<close>, \<^verbatim>\<open>get\<close> is \<open>map_of\<close>, an
    assignment to a field of a stored job object is \<open>AList.map_entry\<close>.
  \<^item> A callback registered with \<^verbatim>\<open>setTimeout\<close> is a pending timeout: the instant at which it
    falls due and what it does. Running a timeout takes the clock reading at that moment.
  \<^item> The outcome of \<^verbatim>\<open>sendReminder\<close> (resolves or throws) is a parameter of the scan. Either
    way \<^verbatim>\<open>sendReminder\<close> first waits for its own timer of 100 ms, so the clock advances by
    100 ms with every job that a scan handles, and what the loop does after
    \<^verbatim>\<open>await this.sendReminder(job)\<close> happens at that later instant. Timers fire exactly when
    they fall due.
  \<^item> Every server action runs to completion before the next one starts, and while a scan is
    under way no action and no timeout callback of the service runs.
  \<^item> Logging and cache revalidation are not modelled.
\<close>

subsection \<open>Data\<close>

type_synonym instant = int

datatype EventStatus = DRAFT | PUBLISHED | CANCELED

record Event =
  ev_id :: string
  ev_title :: string
  ev_description :: "string option"
  ev_date :: instant
  ev_location :: string
  ev_status :: EventStatus
  ev_userId :: string

record Reminder =
  rem_id :: string
  rem_reminderTime :: instant
  rem_eventId :: string
  rem_userId :: string

text \<open>\<^verbatim>\<open>ReminderFormInput\<close>: what a caller hands to the reminder actions.\<close>

record ReminderFormInput =
  reminderTime :: "instant option"
  eventId :: string

text \<open>The \<^verbatim>\<open>rawData\<close> object that \<^verbatim>\<open>updateEvent\<close> builds from its form.\<close>

record EventFormInput =
  title :: string
  description :: "string option"
  date :: "instant option"
  location :: string
  status :: EventStatus

datatype JobStatus = pending | sent | failed

record ReminderJob =
  job_id :: string
  job_eventId :: string
  job_userId :: string
  job_eventTitle :: string
  job_eventDate :: instant
  job_reminderTime :: instant
  job_status :: JobStatus

text \<open>
  The two callbacks that \<^verbatim>\<open>processReminders\<close> hands to \<^verbatim>\<open>setTimeout\<close>; each closes over
  \<^verbatim>\<open>job.id\<close> only.
\<close>

datatype timeout = RemoveJob string | RetryJob string

record MockReminderService =
  jobs :: "(string \<times> ReminderJob) list"
  timeouts :: "(instant \<times> timeout) list"

record world =
  events :: "Event list"
  reminders :: "Reminder list"
  service :: MockReminderService

text \<open>
  The results of the server actions. Each constructor stands for one
  \<^verbatim>\<open>{ error: '...' }\<close> object of the source:
  \<^item> \<open>NotAuthenticated\<close>: \<^verbatim>\<open>Session expired, please log in again.\<close>
  \<^item> \<open>InvalidInput f\<close>: the schema rejected field \<open>f\<close> (\<^verbatim>\<open>Event ID: ...\<close>, \<^verbatim>\<open>Reminder Time: ...\<close>,
    \<^verbatim>\<open>Title: ...\<close> and so on)
  \<^item> \<open>EventNotFound\<close>: \<^verbatim>\<open>Event not found or you do not have permission ...\<close>
  \<^item> \<open>InvalidWindow\<close>: \<^verbatim>\<open>Reminder must be between 15 minutes and 7 days before the event.\<close>
  \<^item> \<open>DuplicateReminder\<close>: \<^verbatim>\<open>A reminder already exists for this event.\<close>
  \<^item> \<open>ReminderNotFound\<close>: \<^verbatim>\<open>Reminder not found or you do not have permission ...\<close>
  \<^item> \<open>DuplicateEvent\<close>: \<^verbatim>\<open>Event with this title and date already exists.\<close>
\<close>

datatype error =
    NotAuthenticated
  | InvalidInput string
  | EventNotFound
  | InvalidWindow
  | DuplicateReminder
  | ReminderNotFound
  | DuplicateEvent

subsection \<open>The time window\<close>

definition fifteenMinutes :: int where
  "fifteenMinutes = 15 * 60 * 1000"

definition sevenDays :: int where
  "sevenDays = 7 * 24 * 60 * 60 * 1000"

text \<open>
  The guard of \<^verbatim>\<open>createReminder\<close>, \<^verbatim>\<open>updateReminder\<close> and \<^verbatim>\<open>createOrUpdateReminder\<close>:
  \<^verbatim>\<open>if (timeBeforeEvent < fifteenMinutes || timeBeforeEvent > sevenDays) return { error }\<close>.
\<close>

definition outsideWindow :: "instant \<Rightarrow> instant \<Rightarrow> bool" where
  "outsideWindow eventDate reminderTime' =
     (let timeBeforeEvent = eventDate - reminderTime'
      in timeBeforeEvent < fifteenMinutes \<or> timeBeforeEvent > sevenDays)"

text \<open>
  The guard of the loop in \<^verbatim>\<open>updateEvent\<close>:
  \<^verbatim>\<open>if (timeBeforeEvent >= fifteenMinutes && timeBeforeEvent <= sevenDays) update else delete\<close>.
\<close>

definition insideWindow :: "instant \<Rightarrow> instant \<Rightarrow> bool" where
  "insideWindow eventDate reminderTime' =
     (let timeBeforeEvent = eventDate - reminderTime'
      in timeBeforeEvent \<ge> fifteenMinutes \<and> timeBeforeEvent \<le> sevenDays)"

subsection \<open>The schemas\<close>

text \<open>
  \<^verbatim>\<open>reminderSchema\<close>: \<^verbatim>\<open>eventId: z.string().min(1)\<close>, \<^verbatim>\<open>reminderTime: z.coerce.date()\<close>
  (which rejects an Invalid Date); its \<^verbatim>\<open>refine\<close> returns \<^verbatim>\<open>true\<close> always. The actions
  report the error of \<^verbatim>\<open>eventId\<close> first.
\<close>

definition reminderSchema :: "ReminderFormInput \<Rightarrow> error + (string \<times> instant)" where
  "reminderSchema data =
     (if length (eventId data) < 1 then Inl (InvalidInput ''Event ID'')
      else case reminderTime data of
             None \<Rightarrow> Inl (InvalidInput ''Reminder Time'')
           | Some t \<Rightarrow> Inr (eventId data, t))"

definition isLetter :: "char \<Rightarrow> bool" where
  "isLetter c =
     (let n = (of_char c :: nat) in (65 \<le> n \<and> n \<le> 90) \<or> (97 \<le> n \<and> n \<le> 122))"

text \<open>The location test \<^verbatim>\<open>/^[A-Za-z]{2}-[A-Za-z]{2,3}:/\<close>.\<close>

fun hasCountryPrefix :: "string \<Rightarrow> bool" where
  "hasCountryPrefix (a # b # d # x # y # rest) =
     (isLetter a \<and> isLetter b \<and> d = CHR ''-'' \<and> isLetter x \<and> isLetter y \<and>
      (case rest of
         [] \<Rightarrow> False
       | c # rest' \<Rightarrow>
           c = CHR '':'' \<or>
           (isLetter c \<and> (case rest' of [] \<Rightarrow> False | c' # _ \<Rightarrow> c' = CHR '':''))))"
| "hasCountryPrefix _ = False"

text \<open>
  \<^verbatim>\<open>eventSchema\<close>, with \<open>now\<close> the clock reading of \<^verbatim>\<open>date > new Date()\<close>. The actions report
  the first failing field in the order title, description, date, location, status. The
  status of \<^verbatim>\<open>rawData\<close> is an \<^verbatim>\<open>EventStatus\<close> by its cast, so \<^verbatim>\<open>z.nativeEnum\<close> accepts it.
\<close>

definition eventSchema :: "instant \<Rightarrow> EventFormInput \<Rightarrow> error + (EventFormInput \<times> instant)" where
  "eventSchema now raw =
     (if length (title raw) < 1 \<or> length (title raw) > 100 then Inl (InvalidInput ''Title'')
      else if (case description raw of None \<Rightarrow> False | Some d \<Rightarrow> length d > 500)
        then Inl (InvalidInput ''Description'')
      else case date raw of
             None \<Rightarrow> Inl (InvalidInput ''Date'')
           | Some d \<Rightarrow>
               if \<not> d > now then Inl (InvalidInput ''Date'')
               else if length (location raw) < 1 \<or> \<not> hasCountryPrefix (location raw)
                 then Inl (InvalidInput ''Location'')
               else Inr (raw, d))"

subsection \<open>The reminder service\<close>

text \<open>\<^verbatim>\<open>scheduleReminder\<close>: builds a pending job and stores it under the reminder id.\<close>

definition scheduleReminder ::
  "string \<Rightarrow> string \<Rightarrow> string \<Rightarrow> string \<Rightarrow> instant \<Rightarrow> instant \<Rightarrow>
   MockReminderService \<Rightarrow> MockReminderService" where
  "scheduleReminder reminderId eventId' userId eventTitle eventDate reminderTime' svc =
     (let job = \<lparr> job_id = reminderId, job_eventId = eventId', job_userId = userId,
                   job_eventTitle = eventTitle, job_eventDate = eventDate,
                   job_reminderTime = reminderTime', job_status = pending \<rparr>
      in svc\<lparr> jobs := AList.update reminderId job (jobs svc) \<rparr>)"

definition cancelReminder :: "string \<Rightarrow> MockReminderService \<Rightarrow> MockReminderService" where
  "cancelReminder reminderId svc =
     (if map_of (jobs svc) reminderId \<noteq> None
      then svc\<lparr> jobs := AList.delete reminderId (jobs svc) \<rparr>
      else svc)"

text \<open>The service's \<^verbatim>\<open>updateReminder\<close> (the action of the same name is \<open>updateReminder\<close> below).\<close>

definition service_updateReminder ::
  "string \<Rightarrow> instant \<Rightarrow> MockReminderService \<Rightarrow> MockReminderService" where
  "service_updateReminder reminderId newReminderTime svc =
     (case map_of (jobs svc) reminderId of
        Some job \<Rightarrow>
          svc\<lparr> jobs := AList.map_entry reminderId
                   (\<lambda>j. j\<lparr> job_reminderTime := newReminderTime, job_status := pending \<rparr>)
                   (jobs svc) \<rparr>
      | None \<Rightarrow> svc)"

definition addMinutes :: "instant \<Rightarrow> int \<Rightarrow> instant" where
  "addMinutes d amount = d + amount * 60000"

text \<open>
  The body of the \<^verbatim>\<open>for\<close> loop of \<^verbatim>\<open>processReminders\<close> over the selected entries; \<open>clock\<close>
  is the instant at which the loop reaches the entry. \<^verbatim>\<open>await this.sendReminder(job)\<close> takes
  100 ms. Then the \<^verbatim>\<open>try\<close> block marks the job sent and registers its removal for one hour
  later; the \<^verbatim>\<open>catch\<close> block marks it failed and registers the retry for five minutes
  later; either way the loop goes on with the next entry. The first component of the
  result lists the jobs that were handed to \<^verbatim>\<open>sendReminder\<close>, in order.
\<close>

fun processJobs ::
  "(ReminderJob \<Rightarrow> bool) \<Rightarrow> instant \<Rightarrow> (string \<times> ReminderJob) list \<Rightarrow>
   MockReminderService \<Rightarrow> ReminderJob list \<times> MockReminderService" where
  "processJobs sendReminder clock [] svc = ([], svc)"
| "processJobs sendReminder clock ((k, job) # rest) svc =
     (let settled = clock + 100;
          svc' =
        (if sendReminder job
         then svc\<lparr> jobs := AList.map_entry k (\<lambda>j. j\<lparr> job_status := sent \<rparr>) (jobs svc),
                   timeouts :=
                     timeouts svc @ [(settled + 60 * 60 * 1000, RemoveJob (job_id job))] \<rparr>
         else svc\<lparr> jobs := AList.map_entry k (\<lambda>j. j\<lparr> job_status := failed \<rparr>) (jobs svc),
                   timeouts :=
                     timeouts svc @ [(settled + 5 * 60 * 1000, RetryJob (job_id job))] \<rparr>);
          r = processJobs sendReminder settled rest svc'
      in (job # fst r, snd r))"

definition pendingJobs :: "instant \<Rightarrow> MockReminderService \<Rightarrow> (string \<times> ReminderJob) list" where
  "pendingJobs now svc =
     filter (\<lambda>(k, job). job_status job = pending \<and> job_reminderTime job \<le> now) (jobs svc)"

definition processReminders ::
  "(ReminderJob \<Rightarrow> bool) \<Rightarrow> instant \<Rightarrow> MockReminderService \<Rightarrow>
   ReminderJob list \<times> MockReminderService" where
  "processReminders sendReminder now svc =
     (if length (pendingJobs now svc) = 0 then ([], svc)
      else processJobs sendReminder now (pendingJobs now svc) svc)"

text \<open>Running one timeout callback when the clock reads \<open>clock\<close>.\<close>

fun runTimeout :: "instant \<Rightarrow> timeout \<Rightarrow> (string \<times> ReminderJob) list \<Rightarrow> (string \<times> ReminderJob) list" where
  "runTimeout clock (RemoveJob i) js = AList.delete i js"
| "runTimeout clock (RetryJob i) js =
     (if map_of js i \<noteq> None
      then AList.map_entry i
             (\<lambda>retryJob. retryJob\<lparr> job_status := pending, job_reminderTime := addMinutes clock 5 \<rparr>) js
      else js)"

text \<open>
  Letting the clock advance to \<open>t\<close>: the timeouts that have fallen due run in the order of
  their due instants (registration order among equals), each at its due instant, and
  leave the list of pending timeouts.
\<close>

definition advanceTo :: "instant \<Rightarrow> MockReminderService \<Rightarrow> MockReminderService" where
  "advanceTo t svc =
     svc\<lparr> jobs := foldl (\<lambda>js (due, cb). runTimeout due cb js) (jobs svc)
                    (sort_key fst (filter (\<lambda>(due, cb). due \<le> t) (timeouts svc))),
           timeouts := filter (\<lambda>(due, cb). \<not> due \<le> t) (timeouts svc) \<rparr>"

subsection \<open>The store\<close>

text \<open>\<^verbatim>\<open>prisma.reminder.update({ where: { id }, data: { reminderTime } })\<close>.\<close>

definition updateReminderRow :: "string \<Rightarrow> instant \<Rightarrow> Reminder list \<Rightarrow> Reminder list" where
  "updateReminderRow i t rows =
     map (\<lambda>r. if rem_id r = i then r\<lparr> rem_reminderTime := t \<rparr> else r) rows"

text \<open>\<^verbatim>\<open>prisma.reminder.delete({ where: { id } })\<close>.\<close>

definition deleteReminderRow :: "string \<Rightarrow> Reminder list \<Rightarrow> Reminder list" where
  "deleteReminderRow i rows = filter (\<lambda>r. rem_id r \<noteq> i) rows"

text \<open>\<^verbatim>\<open>prisma.event.update({ where: { id }, data: validatedData.data })\<close>.\<close>

definition updateEventRow :: "string \<Rightarrow> EventFormInput \<Rightarrow> instant \<Rightarrow> Event list \<Rightarrow> Event list" where
  "updateEventRow i d newDate rows =
     map (\<lambda>e. if ev_id e = i
               then e\<lparr> ev_title := title d, ev_description := description d, ev_date := newDate,
                       ev_location := location d, ev_status := status d \<rparr>
               else e) rows"

subsection \<open>The reminder actions\<close>

text \<open>
  In every action \<open>session\<close> is the id of the signed-in user, \<open>None\<close> when \<^verbatim>\<open>auth()\<close> yields
  no user.
\<close>

definition createReminder ::
  "string option \<Rightarrow> ReminderFormInput \<Rightarrow> string \<Rightarrow> world \<Rightarrow> (error + Reminder) \<times> world" where
  "createReminder session data newId w =
     (case session of
        None \<Rightarrow> (Inl NotAuthenticated, w)
      | Some userId \<Rightarrow>
          (case reminderSchema data of
             Inl e \<Rightarrow> (Inl e, w)
           | Inr (eventId', reminderTime') \<Rightarrow>
               (case find (\<lambda>e. ev_id e = eventId' \<and> ev_userId e = userId) (events w) of
                  None \<Rightarrow> (Inl EventNotFound, w)
                | Some event \<Rightarrow>
                    if outsideWindow (ev_date event) reminderTime' then (Inl InvalidWindow, w)
                    else
                      (case find (\<lambda>r. rem_eventId r = eventId' \<and> rem_userId r = userId)
                              (reminders w) of
                         Some existingReminder \<Rightarrow> (Inl DuplicateReminder, w)
                       | None \<Rightarrow>
                           (let reminder = \<lparr> rem_id = newId, rem_reminderTime = reminderTime',
                                              rem_eventId = eventId', rem_userId = userId \<rparr>
                            in (Inr reminder,
                                w\<lparr> reminders := reminders w @ [reminder],
                                   service := scheduleReminder (rem_id reminder) (ev_id event)
                                     userId (ev_title event) (ev_date event) reminderTime'
                                     (service w) \<rparr>))))))"

definition updateReminder ::
  "string option \<Rightarrow> string \<Rightarrow> ReminderFormInput \<Rightarrow> world \<Rightarrow> (error + Reminder) \<times> world" where
  "updateReminder session reminderId data w =
     (case session of
        None \<Rightarrow> (Inl NotAuthenticated, w)
      | Some userId \<Rightarrow>
          (case reminderSchema data of
             Inl e \<Rightarrow> (Inl e, w)
           | Inr (eventId', reminderTime') \<Rightarrow>
               (case find (\<lambda>e. ev_id e = eventId' \<and> ev_userId e = userId) (events w) of
                  None \<Rightarrow> (Inl EventNotFound, w)
                | Some event \<Rightarrow>
                    if outsideWindow (ev_date event) reminderTime' then (Inl InvalidWindow, w)
                    else
                      (case find (\<lambda>r. rem_id r = reminderId \<and> rem_userId r = userId)
                              (reminders w) of
                         None \<Rightarrow> (Inl ReminderNotFound, w)
                       | Some existingReminder \<Rightarrow>
                           (let reminder = existingReminder\<lparr> rem_reminderTime := reminderTime' \<rparr>
                            in (Inr reminder,
                                w\<lparr> reminders :=
                                     updateReminderRow reminderId reminderTime' (reminders w),
                                   service := service_updateReminder (rem_id reminder)
                                     reminderTime' (service w) \<rparr>))))))"

text \<open>The legacy action; its form has been read into a \<^verbatim>\<open>rawData\<close> object already.\<close>

definition createOrUpdateReminder ::
  "string option \<Rightarrow> ReminderFormInput \<Rightarrow> string \<Rightarrow> world \<Rightarrow> (error + Reminder) \<times> world" where
  "createOrUpdateReminder session rawData newId w =
     (case session of
        None \<Rightarrow> (Inl NotAuthenticated, w)
      | Some userId \<Rightarrow>
          (case reminderSchema rawData of
             Inl e \<Rightarrow> (Inl e, w)
           | Inr (eventId', reminderTime') \<Rightarrow>
               (case find (\<lambda>e. ev_id e = eventId' \<and> ev_userId e = userId) (events w) of
                  None \<Rightarrow> (Inl EventNotFound, w)
                | Some event \<Rightarrow>
                    if outsideWindow (ev_date event) reminderTime' then (Inl InvalidWindow, w)
                    else
                      (case find (\<lambda>r. rem_eventId r = eventId' \<and> rem_userId r = userId)
                              (reminders w) of
                         Some existingReminder \<Rightarrow>
                           (Inr (existingReminder\<lparr> rem_reminderTime := reminderTime' \<rparr>),
                            w\<lparr> reminders :=
                                 updateReminderRow (rem_id existingReminder) reminderTime'
                                   (reminders w) \<rparr>)
                       | None \<Rightarrow>
                           (let reminder = \<lparr> rem_id = newId, rem_reminderTime = reminderTime',
                                              rem_eventId = eventId', rem_userId = userId \<rparr>
                            in (Inr reminder, w\<lparr> reminders := reminders w @ [reminder] \<rparr>))))))"

definition deleteReminder :: "string option \<Rightarrow> string \<Rightarrow> world \<Rightarrow> (error + unit) \<times> world" where
  "deleteReminder session reminderId w =
     (case session of
        None \<Rightarrow> (Inl NotAuthenticated, w)
      | Some userId \<Rightarrow>
          (case find (\<lambda>r. rem_id r = reminderId \<and> rem_userId r = userId) (reminders w) of
             None \<Rightarrow> (Inl ReminderNotFound, w)
           | Some existingReminder \<Rightarrow>
               (Inr (),
                w\<lparr> reminders := deleteReminderRow reminderId (reminders w),
                   service := cancelReminder reminderId (service w) \<rparr>)))"

subsection \<open>The event action\<close>

text \<open>
  The loop of \<^verbatim>\<open>updateEvent\<close> over \<^verbatim>\<open>existingEvent.reminders\<close>, the rows read before the
  event was updated; \<open>rows\<close> is the reminder table as the loop changes it.
\<close>

fun adjustReminders :: "instant \<Rightarrow> instant \<Rightarrow> Reminder list \<Rightarrow> Reminder list \<Rightarrow> Reminder list" where
  "adjustReminders priorDate newDate [] rows = rows"
| "adjustReminders priorDate newDate (reminder # rest) rows =
     (let timeDiff = priorDate - rem_reminderTime reminder;
          newReminderTime = newDate - timeDiff
      in adjustReminders priorDate newDate rest
           (if insideWindow newDate newReminderTime
            then updateReminderRow (rem_id reminder) newReminderTime rows
            else deleteReminderRow (rem_id reminder) rows))"

definition updateEvent ::
  "string option \<Rightarrow> instant \<Rightarrow> string \<Rightarrow> EventFormInput \<Rightarrow> world \<Rightarrow> (error + Event) \<times> world" where
  "updateEvent session now eventId' rawData w =
     (case session of
        None \<Rightarrow> (Inl NotAuthenticated, w)
      | Some userId \<Rightarrow>
          (case eventSchema now rawData of
             Inl e \<Rightarrow> (Inl e, w)
           | Inr (d, newDate) \<Rightarrow>
               (case find (\<lambda>e. ev_id e = eventId' \<and> ev_userId e = userId) (events w) of
                  None \<Rightarrow> (Inl EventNotFound, w)
                | Some existingEvent \<Rightarrow>
                    (case find (\<lambda>e. ev_title e = title d \<and> ev_date e = newDate \<and>
                                     ev_userId e = userId \<and> ev_id e \<noteq> eventId') (events w) of
                       Some duplicateEvent \<Rightarrow> (Inl DuplicateEvent, w)
                     | None \<Rightarrow>
                         (let existingReminders =
                                filter (\<lambda>r. rem_eventId r = ev_id existingEvent) (reminders w);
                              event = existingEvent\<lparr> ev_title := title d,
                                        ev_description := description d, ev_date := newDate,
                                        ev_location := location d, ev_status := status d \<rparr>;
                              w' = w\<lparr> events := updateEventRow eventId' d newDate (events w) \<rparr>
                          in (Inr event,
                              if ev_date existingEvent \<noteq> newDate \<and> length existingReminders > 0
                              then w'\<lparr> reminders :=
                                        adjustReminders (ev_date existingEvent) newDate
                                          existingReminders (reminders w') \<rparr>
                              else w'))))))"

subsection \<open>Vocabulary of the statements\<close>





text \<open>What a timeout does to the table entry of key \<open>k\<close>, and whether it concerns \<open>k\<close> at all.\<close>

fun entryAfter :: "string \<Rightarrow> ReminderJob option \<Rightarrow> instant \<times> timeout \<Rightarrow> ReminderJob option" where
  "entryAfter k e (due, RemoveJob i) = (if i = k then None else e)"
| "entryAfter k e (due, RetryJob i) =
     (if i = k
      then map_option (\<lambda>j. j\<lparr> job_status := pending, job_reminderTime := addMinutes due 5 \<rparr>) e
      else e)"

definition concerns :: "string \<Rightarrow> instant \<times> timeout \<Rightarrow> bool" where
  "concerns k p = (snd p = RemoveJob k \<or> snd p = RetryJob k)"

subsection \<open>A concrete state\<close>

text \<open>
  One user, one event at instant 10000000, one reminder two hours (7200000 ms) before
  it, and the job that \<^verbatim>\<open>createReminder\<close> registered for the reminder.
\<close>

definition exampleEvent :: Event where
  "exampleEvent =
     \<lparr> ev_id = ''e1'', ev_title = ''Launch'', ev_description = None, ev_date = 10000000,
       ev_location = ''US-NY: New York'', ev_status = PUBLISHED, ev_userId = ''u1'' \<rparr>"

definition exampleReminder :: Reminder where
  "exampleReminder =
     \<lparr> rem_id = ''r1'', rem_reminderTime = 2800000, rem_eventId = ''e1'', rem_userId = ''u1'' \<rparr>"

definition exampleJob :: ReminderJob where
  "exampleJob =
     \<lparr> job_id = ''r1'', job_eventId = ''e1'', job_userId = ''u1'', job_eventTitle = ''Launch'',
       job_eventDate = 10000000, job_reminderTime = 2800000, job_status = pending \<rparr>"

definition exampleService :: MockReminderService where
  "exampleService = \<lparr> jobs = [(''r1'', exampleJob)], timeouts = [] \<rparr>"

definition exampleWorld :: world where
  "exampleWorld =
     \<lparr> events = [exampleEvent], reminders = [exampleReminder], service = exampleService \<rparr>"

text \<open>The form that moves the event one day (86400000 ms) later, and a second event.\<close>

definition exampleUpdate :: EventFormInput where
  "exampleUpdate =
     \<lparr> title = ''Launch'', description = None, date = Some 96400000,
       location = ''US-NY: New York'', status = PUBLISHED \<rparr>"

definition otherEvent :: Event where
  "otherEvent =
     \<lparr> ev_id = ''e2'', ev_title = ''Review'', ev_description = None, ev_date = 50000000,
       ev_location = ''DE-BE: Berlin'', ev_status = DRAFT, ev_userId = ''u1'' \<rparr>"

section \<open>Verified properties\<close>

subsection \<open>The time window check\<close>

text \<open>
  C1. The window check of the reminder actions (\<open>outsideWindow\<close>, which rejects) and the one of
  event-change propagation (\<open>insideWindow\<close>, which accepts) both accept a pair of event date and
  reminder time exactly when 900000 <= eventDate - reminderTime <= 604800000, boundaries
  included: offsets of 900000 ms and 604800000 ms are accepted, offsets of 899999 ms and
  604800001 ms are rejected.
\<close>

theorem window_check_iff:
  "(\<not> outsideWindow eventDate t \<longleftrightarrow> (900000 \<le> eventDate - t \<and> eventDate - t \<le> 604800000)) \<and>
   (insideWindow eventDate t \<longleftrightarrow> (900000 \<le> eventDate - t \<and> eventDate - t \<le> 604800000)) \<and>
   \<not> outsideWindow eventDate (eventDate - 900000) \<and> insideWindow eventDate (eventDate - 900000) \<and>
   \<not> outsideWindow eventDate (eventDate - 604800000) \<and>
   insideWindow eventDate (eventDate - 604800000) \<and>
   outsideWindow eventDate (eventDate - 899999) \<and> \<not> insideWindow eventDate (eventDate - 899999) \<and>
   outsideWindow eventDate (eventDate - 604800001) \<and>
   \<not> insideWindow eventDate (eventDate - 604800001)"
  by (simp add: outsideWindow_def insideWindow_def fifteenMinutes_def sevenDays_def Let_def
      not_less not_le conj_commute)

subsection \<open>The reminder service: scans and timeouts\<close>

lemma processJobs_attempts: "fst (processJobs sendReminder clock xs svc) = map snd xs"
  by (induction xs arbitrary: clock svc) (auto simp: Let_def)












lemma runTimeout_entry: "map_of (runTimeout due cb js) k = entryAfter k (map_of js k) (due, cb)"
  by (cases cb) (auto simp: AList.delete_conv' AList.map_of_map_entry split: option.splits)

lemma foldl_runTimeout_entry:
  "map_of (foldl (\<lambda>js (due, cb). runTimeout due cb js) js ts) k = foldl (entryAfter k) (map_of js k) ts"
  by (induction ts arbitrary: js) (auto simp: runTimeout_entry)

lemma entryAfter_unconcerned: "\<not> concerns k p \<Longrightarrow> entryAfter k e p = e"
  by (cases p, cases "snd p") (auto simp: concerns_def)

lemma foldl_entryAfter_filter:
  "foldl (entryAfter k) e ts = foldl (entryAfter k) e (filter (concerns k) ts)"
  by (induction ts arbitrary: e) (auto simp: entryAfter_unconcerned)

lemma entryAfter_None: "entryAfter k None p = None"
  by (cases p, cases "snd p") auto

lemma foldl_entryAfter_None: "foldl (entryAfter k) None ts = None"
  by (induction ts) (auto simp: entryAfter_None)


lemma advanceTo_entry:
  "map_of (jobs (advanceTo t svc)) k =
     foldl (entryAfter k) (map_of (jobs svc) k)
       (sort_key fst (filter (concerns k) (filter (\<lambda>(due, cb). due \<le> t) (timeouts svc))))"
proof -
  let ?due = "filter (\<lambda>(due, cb). due \<le> t) (timeouts svc)"
  have "map_of (jobs (advanceTo t svc)) k = foldl (entryAfter k) (map_of (jobs svc) k) (sort_key fst ?due)"
    by (simp add: advanceTo_def foldl_runTimeout_entry)
  also have "\<dots> = foldl (entryAfter k) (map_of (jobs svc) k) (filter (concerns k) (sort_key fst ?due))"
    by (rule foldl_entryAfter_filter)
  also have "filter (concerns k) (sort_key fst ?due) = sort_key fst (filter (concerns k) ?due)"
    by (rule filter_sort)
  finally show ?thesis .
qed








lemma processReminders_attempts:
  "fst (processReminders sendReminder now svc) = map snd (pendingJobs now svc)"
  by (simp add: processReminders_def processJobs_attempts)






text \<open>
  C5. Whatever the outcomes of the deliveries, a scan at \<open>now\<close> hands to \<^verbatim>\<open>sendReminder\<close>
  exactly the jobs of the table that are pending with a reminder time not after \<open>now\<close>, in
  table order, and no other job. In particular the jobs attempted do not depend on which
  deliveries fail: they are the ones attempted by a scan in which every delivery succeeds.
\<close>

theorem scan_attempts_exactly_due_jobs:
  "fst (processReminders sendReminder now svc) =
     map snd (filter (\<lambda>(k, job). job_status job = pending \<and> job_reminderTime job \<le> now) (jobs svc)) \<and>
   set (fst (processReminders sendReminder now svc)) =
     {job. \<exists>k. (k, job) \<in> set (jobs svc) \<and> job_status job = pending \<and> job_reminderTime job \<le> now} \<and>
   fst (processReminders sendReminder now svc) = fst (processReminders (\<lambda>job. True) now svc)"
  by (force simp: processReminders_attempts pendingJobs_def)

theorem scan_attempts_exactly_due_jobs_witness:
  "fst (processReminders (\<lambda>job. job_id job \<noteq> ''r1'') 3000000
     \<lparr> jobs = [(''r1'', exampleJob),
                (''r2'', exampleJob\<lparr> job_id := ''r2'', job_reminderTime := 3000001 \<rparr>),
                (''r3'', exampleJob\<lparr> job_id := ''r3'', job_status := sent \<rparr>),
                (''r4'', exampleJob\<lparr> job_id := ''r4'', job_reminderTime := 3000000 \<rparr>)],
        timeouts = [] \<rparr>) =
     [exampleJob, exampleJob\<lparr> job_id := ''r4'', job_reminderTime := 3000000 \<rparr>] \<and>
   snd (processReminders (\<lambda>job. job_id job \<noteq> ''r1'') 3000000
     \<lparr> jobs = [(''r1'', exampleJob),
                (''r2'', exampleJob\<lparr> job_id := ''r2'', job_reminderTime := 3000001 \<rparr>),
                (''r3'', exampleJob\<lparr> job_id := ''r3'', job_status := sent \<rparr>),
                (''r4'', exampleJob\<lparr> job_id := ''r4'', job_reminderTime := 3000000 \<rparr>)],
        timeouts = [] \<rparr>) =
     \<lparr> jobs = [(''r1'', exampleJob\<lparr> job_status := failed \<rparr>),
                (''r2'', exampleJob\<lparr> job_id := ''r2'', job_reminderTime := 3000001 \<rparr>),
                (''r3'', exampleJob\<lparr> job_id := ''r3'', job_status := sent \<rparr>),
                (''r4'', exampleJob\<lparr> job_id := ''r4'', job_reminderTime := 3000000, job_status := sent \<rparr>)],
        timeouts = [(3300100, RetryJob ''r1''), (6600200, RemoveJob ''r4'')] \<rparr>"
proof -
  let ?svc = "\<lparr> jobs = [(''r1'', exampleJob),
                (''r2'', exampleJob\<lparr> job_id := ''r2'', job_reminderTime := 3000001 \<rparr>),
                (''r3'', exampleJob\<lparr> job_id := ''r3'', job_status := sent \<rparr>),
                (''r4'', exampleJob\<lparr> job_id := ''r4'', job_reminderTime := 3000000 \<rparr>)],
        timeouts = [] \<rparr>"
  have a: "fst (processReminders (\<lambda>job. job_id job \<noteq> ''r1'') 3000000 ?svc) =
     [exampleJob, exampleJob\<lparr> job_id := ''r4'', job_reminderTime := 3000000 \<rparr>]"
    using scan_attempts_exactly_due_jobs[of "\<lambda>job. job_id job \<noteq> ''r1''" 3000000 ?svc]
    by (simp add: exampleJob_def)
  have b: "snd (processReminders (\<lambda>job. job_id job \<noteq> ''r1'') 3000000 ?svc) =
     \<lparr> jobs = [(''r1'', exampleJob\<lparr> job_status := failed \<rparr>),
                (''r2'', exampleJob\<lparr> job_id := ''r2'', job_reminderTime := 3000001 \<rparr>),
                (''r3'', exampleJob\<lparr> job_id := ''r3'', job_status := sent \<rparr>),
                (''r4'', exampleJob\<lparr> job_id := ''r4'', job_reminderTime := 3000000, job_status := sent \<rparr>)],
        timeouts = [(3300100, RetryJob ''r1''), (6600200, RemoveJob ''r4'')] \<rparr>"
    by (simp add: processReminders_def pendingJobs_def exampleJob_def Let_def)
  show ?thesis using a b by (rule conjI)
qed




text \<open>
  C7. Once \<^verbatim>\<open>cancelReminder\<close> has removed a job, its retry callback changes nothing whenever
  it runs, and no passage of time (whatever timeouts are waiting) brings the job back.
\<close>

theorem cancel_prevents_retry:
  "runTimeout clock (RetryJob k) (jobs (cancelReminder k svc)) = jobs (cancelReminder k svc) \<and>
   map_of (jobs (advanceTo t (cancelReminder k svc))) k = None"
proof -
  have gone: "map_of (jobs (cancelReminder k svc)) k = None"
    by (simp add: cancelReminder_def AList.delete_conv')
  then show ?thesis
    by (simp add: advanceTo_entry foldl_entryAfter_None)
qed

theorem cancel_prevents_retry_witness:
  "snd (processReminders (\<lambda>job. False) 3000000 exampleService) =
     \<lparr> jobs = [(''r1'', exampleJob\<lparr> job_status := failed \<rparr>)],
       timeouts = [(3300100, RetryJob ''r1'')] \<rparr> \<and>
   cancelReminder ''r1'' (snd (processReminders (\<lambda>job. False) 3000000 exampleService)) =
     \<lparr> jobs = [], timeouts = [(3300100, RetryJob ''r1'')] \<rparr> \<and>
   advanceTo 3300100 (cancelReminder ''r1'' (snd (processReminders (\<lambda>job. False) 3000000 exampleService))) =
     \<lparr> jobs = [], timeouts = [] \<rparr> \<and>
   map_of (jobs (advanceTo 3300100
     (cancelReminder ''r1'' (snd (processReminders (\<lambda>job. False) 3000000 exampleService))))) ''r1'' = None"
proof -
  have a: "snd (processReminders (\<lambda>job. False) 3000000 exampleService) =
     \<lparr> jobs = [(''r1'', exampleJob\<lparr> job_status := failed \<rparr>)],
       timeouts = [(3300100, RetryJob ''r1'')] \<rparr>"
    by code_simp
  have b: "cancelReminder ''r1'' (snd (processReminders (\<lambda>job. False) 3000000 exampleService)) =
     \<lparr> jobs = [], timeouts = [(3300100, RetryJob ''r1'')] \<rparr>"
    by code_simp
  have c: "advanceTo 3300100 (cancelReminder ''r1'' (snd (processReminders (\<lambda>job. False) 3000000 exampleService))) =
     \<lparr> jobs = [], timeouts = [] \<rparr>"
    by code_simp
  have d: "map_of (jobs (advanceTo 3300100
     (cancelReminder ''r1'' (snd (processReminders (\<lambda>job. False) 3000000 exampleService))))) ''r1'' = None"
    using cancel_prevents_retry[of _ "''r1''" "snd (processReminders (\<lambda>job. False) 3000000 exampleService)" 3300100]
    by simp
  show ?thesis using a b c d by (intro conjI)
qed



subsection \<open>Event-change propagation\<close>

lemma find_updateReminderRow:
  "find (\<lambda>x. rem_id x = i) (updateReminderRow j t rows) =
     (if i = j then map_option (\<lambda>x. x\<lparr> rem_reminderTime := t \<rparr>) (find (\<lambda>x. rem_id x = i) rows)
      else find (\<lambda>x. rem_id x = i) rows)"
  by (induction rows) (auto simp: updateReminderRow_def)

lemma find_deleteReminderRow:
  "find (\<lambda>x. rem_id x = i) (deleteReminderRow j rows) =
     (if i = j then None else find (\<lambda>x. rem_id x = i) rows)"
  by (induction rows) (auto simp: deleteReminderRow_def)

lemma find_by_id_distinct:
  "distinct (map rem_id rows) \<Longrightarrow> r \<in> set rows \<Longrightarrow> find (\<lambda>x. rem_id x = rem_id r) rows = Some r"
  by (induction rows) (auto simp: image_iff)

lemma adjustReminders_find:
  "distinct (map rem_id rs) \<Longrightarrow>
   find (\<lambda>x. rem_id x = i) (adjustReminders priorDate newDate rs rows) =
     (case find (\<lambda>r. rem_id r = i) rs of
        None \<Rightarrow> find (\<lambda>x. rem_id x = i) rows
      | Some r \<Rightarrow>
          if insideWindow newDate (newDate - (priorDate - rem_reminderTime r))
          then map_option (\<lambda>x. x\<lparr> rem_reminderTime := newDate - (priorDate - rem_reminderTime r) \<rparr>)
                 (find (\<lambda>x. rem_id x = i) rows)
          else None)"
proof (induction rs arbitrary: rows)
  case Nil
  then show ?case by simp
next
  case (Cons r rs)
  from Cons.prems have d: "distinct (map rem_id rs)" and nr: "\<forall>x \<in> set rs. rem_id x \<noteq> rem_id r"
    by (auto simp: image_iff)
  have none: "find (\<lambda>x. rem_id x = rem_id r) rs = None"
    using nr by (simp add: find_None_iff)
  show ?case
  proof (cases "rem_id r = i")
    case True
    then show ?thesis
      using Cons.IH[OF d] none
      by (auto simp: Let_def find_updateReminderRow find_deleteReminderRow split: option.splits)
  next
    case False
    then show ?thesis
      using Cons.IH[OF d]
      by (auto simp: Let_def find_updateReminderRow find_deleteReminderRow split: option.splits)
  qed
qed

lemma eventSchema_Inr:
  "eventSchema now raw = Inr (d, newDate) \<Longrightarrow> d = raw \<and> date raw = Some newDate \<and> now < newDate"
  by (auto simp: eventSchema_def split: if_splits option.splits)

text \<open>
  C2. When \<^verbatim>\<open>updateEvent\<close> succeeds and changes the date of an event from the prior date to
  \<open>newDate\<close>, then for every reminder \<open>r\<close> attached to the event (reminder ids being unique
  in the store) the new reminder time is \<open>newDate - (priorDate - reminderTime r)\<close>: the
  lead time is kept. If the pair of \<open>newDate\<close> and the new reminder time passes the window
  check, the stored reminder has the new reminder time; otherwise no reminder with that id
  is left in the store. An event at T with a reminder at T - 2h, moved to T + 1d, has its
  reminder at T + 1d - 2h (the evaluation that follows the theorem).
\<close>

theorem propagation_preserves_offset:
  assumes ok: "updateEvent (Some userId) now eid rawData w = (Inr event, w')"
    and ev: "find (\<lambda>e. ev_id e = eid \<and> ev_userId e = userId) (events w) = Some existingEvent"
    and nd: "date rawData = Some newDate"
    and changed: "ev_date existingEvent \<noteq> newDate"
    and ids: "distinct (map rem_id (reminders w))"
    and r: "r \<in> set (reminders w)" "rem_eventId r = eid"
  shows "let newReminderTime = newDate - (ev_date existingEvent - rem_reminderTime r)
         in find (\<lambda>x. rem_id x = rem_id r) (reminders w') =
              (if insideWindow newDate newReminderTime
               then Some (r\<lparr> rem_reminderTime := newReminderTime \<rparr>)
               else None)"
proof -
  let ?rs = "filter (\<lambda>x. rem_eventId x = ev_id existingEvent) (reminders w)"
  have eid: "ev_id existingEvent = eid" using ev by (auto simp: find_Some_iff)
  obtain d nd' where sch: "eventSchema now rawData = Inr (d, nd')"
    using ok by (auto simp: updateEvent_def split: sum.splits)
  have nd': "nd' = newDate" and d: "d = rawData" using eventSchema_Inr[OF sch] nd by auto
  have rin: "r \<in> set ?rs" using r eid by simp
  then have ne: "?rs \<noteq> []" by (metis empty_iff list.set(1))
  have w': "reminders w' = adjustReminders (ev_date existingEvent) newDate ?rs (reminders w)"
    using ok ev sch changed ne
    by (auto simp: updateEvent_def nd' Let_def split: option.splits)
  have drs: "distinct (map rem_id ?rs)" using ids by (rule distinct_map_filter)
  have f1: "find (\<lambda>x. rem_id x = rem_id r) ?rs = Some r" using find_by_id_distinct[OF drs rin] .
  have f2: "find (\<lambda>x. rem_id x = rem_id r) (reminders w) = Some r" using find_by_id_distinct[OF ids r(1)] .
  show ?thesis
    unfolding Let_def w' adjustReminders_find[OF drs] f1 f2 by simp
qed

lemma example_updateEvent:
  "updateEvent (Some ''u1'') 0 ''e1'' exampleUpdate exampleWorld =
   (Inr (exampleEvent\<lparr> ev_date := 96400000 \<rparr>),
    exampleWorld\<lparr> events := [exampleEvent\<lparr> ev_date := 96400000 \<rparr>],
                  reminders := [exampleReminder\<lparr> rem_reminderTime := 89200000 \<rparr>] \<rparr>)"
  by (simp add: updateEvent_def eventSchema_def exampleUpdate_def exampleWorld_def exampleEvent_def
      exampleReminder_def updateEventRow_def updateReminderRow_def insideWindow_def
      fifteenMinutes_def sevenDays_def isLetter_def Let_def)

theorem propagation_preserves_offset_witness:
  "updateEvent (Some ''u1'') 0 ''e1'' exampleUpdate exampleWorld =
     (Inr (exampleEvent\<lparr> ev_date := 96400000 \<rparr>),
      exampleWorld\<lparr> events := [exampleEvent\<lparr> ev_date := 96400000 \<rparr>],
                    reminders := [exampleReminder\<lparr> rem_reminderTime := 89200000 \<rparr>] \<rparr>) \<and>
   ev_date exampleEvent = 10000000 \<and> rem_reminderTime exampleReminder = 10000000 - 7200000 \<and>
   find (\<lambda>x. rem_id x = rem_id exampleReminder)
     (reminders (exampleWorld\<lparr> events := [exampleEvent\<lparr> ev_date := 96400000 \<rparr>],
                    reminders := [exampleReminder\<lparr> rem_reminderTime := 89200000 \<rparr>] \<rparr>)) =
     Some (exampleReminder\<lparr> rem_reminderTime := 10000000 + 86400000 - 7200000 \<rparr>)"
proof -
  have h2: "find (\<lambda>e. ev_id e = ''e1'' \<and> ev_userId e = ''u1'') (events exampleWorld) = Some exampleEvent"
    by (simp add: exampleWorld_def exampleEvent_def)
  have h3: "date exampleUpdate = Some 96400000" by (simp add: exampleUpdate_def)
  have h4: "ev_date exampleEvent \<noteq> 96400000" by (simp add: exampleEvent_def)
  have h5: "distinct (map rem_id (reminders exampleWorld))" by (simp add: exampleWorld_def)
  have h6: "exampleReminder \<in> set (reminders exampleWorld)" by (simp add: exampleWorld_def)
  have h7: "rem_eventId exampleReminder = ''e1''" by (simp add: exampleReminder_def)
  have w: "insideWindow 96400000 (96400000 - (ev_date exampleEvent - rem_reminderTime exampleReminder))"
    by (simp add: insideWindow_def fifteenMinutes_def sevenDays_def exampleEvent_def exampleReminder_def)
  have v: "ev_date exampleEvent = 10000000 \<and> rem_reminderTime exampleReminder = 2800000"
    by (simp add: exampleEvent_def exampleReminder_def)
  show ?thesis
    using propagation_preserves_offset[OF example_updateEvent h2 h3 h4 h5 h6 h7] w v
      example_updateEvent
    by (simp add: Let_def)
qed

subsection \<open>The job table when an event changes\<close>

text \<open>
  \<^verbatim>\<open>updateEvent\<close> never touches the reminder service, whereas the reminder actions
  \<^verbatim>\<open>updateReminder\<close> and \<^verbatim>\<open>deleteReminder\<close> carry every change of a reminder over to its job.
\<close>

lemma updateEvent_service: "service (snd (updateEvent session now eid rawData w)) = service w"
  by (simp add: updateEvent_def Let_def split: option.splits sum.splits prod.splits)

lemma updateReminder_job_in_step:
  "updateReminder session rid data w = (Inr r, w') \<Longrightarrow>
   map_of (jobs (service w')) rid =
     map_option (\<lambda>j. j\<lparr> job_reminderTime := rem_reminderTime r, job_status := pending \<rparr>)
       (map_of (jobs (service w)) rid)"
  by (auto simp: updateReminder_def service_updateReminder_def Let_def AList.map_of_map_entry
      find_Some_iff split: option.splits sum.splits prod.splits if_splits)

lemma deleteReminder_job_cancelled:
  "deleteReminder session rid w = (Inr u, w') \<Longrightarrow> map_of (jobs (service w')) rid = None"
  by (auto simp: deleteReminder_def cancelReminder_def AList.delete_conv'
      split: option.splits if_splits)

text \<open>
  C3. The claim is that a job always carries the reminder time of its reminder, and that
  event-change propagation updates the job of a reminder that it moves. The code does not:
  on the concrete state, moving the event one day later moves the stored reminder from
  2800000 to 89200000 and leaves its job, unchanged, at 2800000.
\<close>

theorem updateEvent_leaves_job_stale:
  "let w' = snd (updateEvent (Some ''u1'') 0 ''e1'' exampleUpdate exampleWorld)
   in find (\<lambda>x. rem_id x = ''r1'') (reminders w') =
        Some (exampleReminder\<lparr> rem_reminderTime := 89200000 \<rparr>) \<and>
      map_of (jobs (service w')) ''r1'' = Some exampleJob \<and>
      job_reminderTime exampleJob = 2800000 \<and>
      map_option job_reminderTime (map_of (jobs (service w')) ''r1'') \<noteq>
        map_option rem_reminderTime (find (\<lambda>x. rem_id x = ''r1'') (reminders w'))"
  unfolding example_updateEvent Let_def
  by (simp add: exampleWorld_def exampleService_def exampleReminder_def exampleJob_def)

subsection \<open>The checks of createReminder\<close>

lemma find_append_None:
  "find P xs = None \<Longrightarrow> find P (xs @ ys) = find P ys"
  by (induction xs) (auto split: if_splits)

text \<open>
  C4, as stated, omits the schema check that stands between the session check and the
  event lookup: for an empty event id no event is found, and yet the result is the schema's
  error, not \<open>EventNotFound\<close>.
\<close>

theorem createReminder_empty_eventId_counterexample:
  "find (\<lambda>e. ev_id e = '''' \<and> ev_userId e = ''u1'') (events exampleWorld) = None \<and>
   createReminder (Some ''u1'') \<lparr> reminderTime = Some 2800000, eventId = '''' \<rparr> ''r2'' exampleWorld =
     (Inl (InvalidInput ''Event ID''), exampleWorld) \<and>
   fst (createReminder (Some ''u1'') \<lparr> reminderTime = Some 2800000, eventId = '''' \<rparr> ''r2'' exampleWorld)
     \<noteq> Inl EventNotFound"
  by (simp add: createReminder_def reminderSchema_def exampleWorld_def exampleEvent_def)

text \<open>
  C4, amended. \<^verbatim>\<open>createReminder\<close> checks in this order and returns the first error that
  applies, leaving the state as it was: \<open>NotAuthenticated\<close> without a signed-in user; the
  schema's error for an empty event id, then for an invalid reminder date; \<open>EventNotFound\<close>
  when the user owns no event of that id; \<open>InvalidWindow\<close> when the window check rejects
  the event date and the reminder time; \<open>DuplicateReminder\<close> when a reminder of that event
  and user exists. When none applies it appends the reminder to the store, registers a
  pending job under the reminder's id and returns the reminder; the same call made again
  then fails with \<open>DuplicateReminder\<close>.
\<close>

theorem createReminder_check_order:
  "createReminder None data newId w = (Inl NotAuthenticated, w) \<and>
   (eventId data = [] \<longrightarrow>
      createReminder (Some u) data newId w = (Inl (InvalidInput ''Event ID''), w)) \<and>
   (eventId data \<noteq> [] \<and> reminderTime data = None \<longrightarrow>
      createReminder (Some u) data newId w = (Inl (InvalidInput ''Reminder Time''), w)) \<and>
   (eventId data \<noteq> [] \<and> reminderTime data = Some t \<and>
    find (\<lambda>e. ev_id e = eventId data \<and> ev_userId e = u) (events w) = None \<longrightarrow>
      createReminder (Some u) data newId w = (Inl EventNotFound, w)) \<and>
   (eventId data \<noteq> [] \<and> reminderTime data = Some t \<and>
    find (\<lambda>e. ev_id e = eventId data \<and> ev_userId e = u) (events w) = Some ev \<and>
    outsideWindow (ev_date ev) t \<longrightarrow>
      createReminder (Some u) data newId w = (Inl InvalidWindow, w)) \<and>
   (eventId data \<noteq> [] \<and> reminderTime data = Some t \<and>
    find (\<lambda>e. ev_id e = eventId data \<and> ev_userId e = u) (events w) = Some ev \<and>
    \<not> outsideWindow (ev_date ev) t \<and>
    find (\<lambda>r. rem_eventId r = eventId data \<and> rem_userId r = u) (reminders w) = Some existing \<longrightarrow>
      createReminder (Some u) data newId w = (Inl DuplicateReminder, w)) \<and>
   (eventId data \<noteq> [] \<and> reminderTime data = Some t \<and>
    find (\<lambda>e. ev_id e = eventId data \<and> ev_userId e = u) (events w) = Some ev \<and>
    \<not> outsideWindow (ev_date ev) t \<and>
    find (\<lambda>r. rem_eventId r = eventId data \<and> rem_userId r = u) (reminders w) = None \<longrightarrow>
      (let r = \<lparr> rem_id = newId, rem_reminderTime = t, rem_eventId = eventId data, rem_userId = u \<rparr>;
           w' = snd (createReminder (Some u) data newId w)
       in fst (createReminder (Some u) data newId w) = Inr r \<and>
          events w' = events w \<and> reminders w' = reminders w @ [r] \<and>
          map_of (jobs (service w')) newId =
            Some \<lparr> job_id = newId, job_eventId = ev_id ev, job_userId = u,
                   job_eventTitle = ev_title ev, job_eventDate = ev_date ev,
                   job_reminderTime = t, job_status = pending \<rparr> \<and>
          createReminder (Some u) data newId' w' = (Inl DuplicateReminder, w')))"
proof -
  have c1: "createReminder None data newId w = (Inl NotAuthenticated, w)"
    by (simp add: createReminder_def)
  have c2: "createReminder (Some u) data newId w = (Inl (InvalidInput ''Event ID''), w)"
    if "eventId data = []"
    using that by (simp add: createReminder_def reminderSchema_def)
  have c3: "createReminder (Some u) data newId w = (Inl (InvalidInput ''Reminder Time''), w)"
    if "eventId data \<noteq> []" "reminderTime data = None"
    using that by (simp add: createReminder_def reminderSchema_def)
  have sch: "reminderSchema data = Inr (eventId data, t)"
    if "eventId data \<noteq> []" "reminderTime data = Some t"
    using that by (simp add: reminderSchema_def)
  have c4: "createReminder (Some u) data newId w = (Inl EventNotFound, w)"
    if "eventId data \<noteq> []" "reminderTime data = Some t"
      "find (\<lambda>e. ev_id e = eventId data \<and> ev_userId e = u) (events w) = None"
    using that sch by (simp add: createReminder_def)
  have c5: "createReminder (Some u) data newId w = (Inl InvalidWindow, w)"
    if "eventId data \<noteq> []" "reminderTime data = Some t"
      "find (\<lambda>e. ev_id e = eventId data \<and> ev_userId e = u) (events w) = Some ev"
      "outsideWindow (ev_date ev) t"
    using that sch by (simp add: createReminder_def)
  have c6: "createReminder (Some u) data newId w = (Inl DuplicateReminder, w)"
    if "eventId data \<noteq> []" "reminderTime data = Some t"
      "find (\<lambda>e. ev_id e = eventId data \<and> ev_userId e = u) (events w) = Some ev"
      "\<not> outsideWindow (ev_date ev) t"
      "find (\<lambda>r. rem_eventId r = eventId data \<and> rem_userId r = u) (reminders w) = Some existing"
    using that sch by (simp add: createReminder_def)
  have c7: "let r = \<lparr> rem_id = newId, rem_reminderTime = t, rem_eventId = eventId data, rem_userId = u \<rparr>;
           w' = snd (createReminder (Some u) data newId w)
       in fst (createReminder (Some u) data newId w) = Inr r \<and>
          events w' = events w \<and> reminders w' = reminders w @ [r] \<and>
          map_of (jobs (service w')) newId =
            Some \<lparr> job_id = newId, job_eventId = ev_id ev, job_userId = u,
                   job_eventTitle = ev_title ev, job_eventDate = ev_date ev,
                   job_reminderTime = t, job_status = pending \<rparr> \<and>
          createReminder (Some u) data newId' w' = (Inl DuplicateReminder, w')"
    if h: "eventId data \<noteq> []" "reminderTime data = Some t"
      "find (\<lambda>e. ev_id e = eventId data \<and> ev_userId e = u) (events w) = Some ev"
      "\<not> outsideWindow (ev_date ev) t"
      "find (\<lambda>r. rem_eventId r = eventId data \<and> rem_userId r = u) (reminders w) = None"
  proof -
    let ?r = "\<lparr> rem_id = newId, rem_reminderTime = t, rem_eventId = eventId data, rem_userId = u \<rparr>"
    let ?w' = "w\<lparr> reminders := reminders w @ [?r],
                   service := scheduleReminder newId (ev_id ev) u (ev_title ev) (ev_date ev) t (service w) \<rparr>"
    have first: "createReminder (Some u) data newId w = (Inr ?r, ?w')"
      using h sch by (simp add: createReminder_def Let_def)
    have dup: "find (\<lambda>r. rem_eventId r = eventId data \<and> rem_userId r = u) (reminders ?w') = Some ?r"
      using h(5) by (simp add: find_append_None)
    have second: "createReminder (Some u) data newId' ?w' = (Inl DuplicateReminder, ?w')"
      using h(1-4) sch dup by (simp add: createReminder_def)
    have job: "map_of (jobs (service ?w')) newId =
            Some \<lparr> job_id = newId, job_eventId = ev_id ev, job_userId = u,
                   job_eventTitle = ev_title ev, job_eventDate = ev_date ev,
                   job_reminderTime = t, job_status = pending \<rparr>"
      by (simp add: scheduleReminder_def AList.update_conv')
    show ?thesis
      unfolding Let_def first using second job by simp
  qed
  show ?thesis
    using c1 c2 c3 c4 c5 c6 c7 by blast
qed

theorem createReminder_check_order_witness:
  "createReminder None \<lparr> reminderTime = Some 2800000, eventId = ''e1'' \<rparr> ''r2'' exampleWorld =
     (Inl NotAuthenticated, exampleWorld) \<and>
   createReminder (Some ''u1'') \<lparr> reminderTime = Some 2800000, eventId = '''' \<rparr> ''r2'' exampleWorld =
     (Inl (InvalidInput ''Event ID''), exampleWorld) \<and>
   createReminder (Some ''u1'') \<lparr> reminderTime = None, eventId = ''e1'' \<rparr> ''r2'' exampleWorld =
     (Inl (InvalidInput ''Reminder Time''), exampleWorld) \<and>
   createReminder (Some ''u1'') \<lparr> reminderTime = Some 2800000, eventId = ''e9'' \<rparr> ''r2'' exampleWorld =
     (Inl EventNotFound, exampleWorld) \<and>
   createReminder (Some ''u1'') \<lparr> reminderTime = Some 9100001, eventId = ''e1'' \<rparr> ''r2'' exampleWorld =
     (Inl InvalidWindow, exampleWorld) \<and>
   createReminder (Some ''u1'') \<lparr> reminderTime = Some 2800000, eventId = ''e1'' \<rparr> ''r2'' exampleWorld =
     (Inl DuplicateReminder, exampleWorld) \<and>
   fst (createReminder (Some ''u1'') \<lparr> reminderTime = Some 2800000, eventId = ''e1'' \<rparr> ''r2''
          (exampleWorld\<lparr> reminders := [] \<rparr>)) =
     Inr \<lparr> rem_id = ''r2'', rem_reminderTime = 2800000, rem_eventId = ''e1'', rem_userId = ''u1'' \<rparr> \<and>
   createReminder (Some ''u1'') \<lparr> reminderTime = Some 2800000, eventId = ''e1'' \<rparr> ''r3''
       (snd (createReminder (Some ''u1'') \<lparr> reminderTime = Some 2800000, eventId = ''e1'' \<rparr> ''r2''
          (exampleWorld\<lparr> reminders := [] \<rparr>))) =
     (Inl DuplicateReminder,
      snd (createReminder (Some ''u1'') \<lparr> reminderTime = Some 2800000, eventId = ''e1'' \<rparr> ''r2''
          (exampleWorld\<lparr> reminders := [] \<rparr>)))"
proof -
  have ev: "find (\<lambda>e. ev_id e = ''e1'' \<and> ev_userId e = ''u1'') (events exampleWorld) = Some exampleEvent"
    by (simp add: exampleWorld_def exampleEvent_def)
  have nev: "find (\<lambda>e. ev_id e = ''e9'' \<and> ev_userId e = ''u1'') (events exampleWorld) = None"
    by (simp add: exampleWorld_def exampleEvent_def)
  have rm: "find (\<lambda>r. rem_eventId r = ''e1'' \<and> rem_userId r = ''u1'') (reminders exampleWorld) = Some exampleReminder"
    by (simp add: exampleWorld_def exampleReminder_def)
  have out: "outsideWindow (ev_date exampleEvent) 9100001"
    by (simp add: outsideWindow_def fifteenMinutes_def sevenDays_def exampleEvent_def)
  have ins: "\<not> outsideWindow (ev_date exampleEvent) 2800000"
    by (simp add: outsideWindow_def fifteenMinutes_def sevenDays_def exampleEvent_def)
  have a1: "createReminder None \<lparr> reminderTime = Some 2800000, eventId = ''e1'' \<rparr> ''r2'' exampleWorld =
     (Inl NotAuthenticated, exampleWorld)"
    using createReminder_check_order[where data = "\<lparr> reminderTime = Some 2800000, eventId = ''e1'' \<rparr>"
        and newId = "''r2''" and w = exampleWorld]
    by simp
  have a2: "createReminder (Some ''u1'') \<lparr> reminderTime = Some 2800000, eventId = '''' \<rparr> ''r2'' exampleWorld =
     (Inl (InvalidInput ''Event ID''), exampleWorld)"
    using createReminder_check_order[where data = "\<lparr> reminderTime = Some 2800000, eventId = '''' \<rparr>"
        and newId = "''r2''" and w = exampleWorld and u = "''u1''"]
    by simp
  have a3: "createReminder (Some ''u1'') \<lparr> reminderTime = None, eventId = ''e1'' \<rparr> ''r2'' exampleWorld =
     (Inl (InvalidInput ''Reminder Time''), exampleWorld)"
    using createReminder_check_order[where data = "\<lparr> reminderTime = None, eventId = ''e1'' \<rparr>"
        and newId = "''r2''" and w = exampleWorld and u = "''u1''"]
    by simp
  have a4: "createReminder (Some ''u1'') \<lparr> reminderTime = Some 2800000, eventId = ''e9'' \<rparr> ''r2'' exampleWorld =
     (Inl EventNotFound, exampleWorld)"
    using createReminder_check_order[where data = "\<lparr> reminderTime = Some 2800000, eventId = ''e9'' \<rparr>"
        and newId = "''r2''" and w = exampleWorld and u = "''u1''" and t = 2800000] nev
    by simp
  have a5: "createReminder (Some ''u1'') \<lparr> reminderTime = Some 9100001, eventId = ''e1'' \<rparr> ''r2'' exampleWorld =
     (Inl InvalidWindow, exampleWorld)"
    using createReminder_check_order[where data = "\<lparr> reminderTime = Some 9100001, eventId = ''e1'' \<rparr>"
        and newId = "''r2''" and w = exampleWorld and u = "''u1''" and t = 9100001
        and ev = exampleEvent] ev out
    by simp
  have a6: "createReminder (Some ''u1'') \<lparr> reminderTime = Some 2800000, eventId = ''e1'' \<rparr> ''r2'' exampleWorld =
     (Inl DuplicateReminder, exampleWorld)"
    using createReminder_check_order[where data = "\<lparr> reminderTime = Some 2800000, eventId = ''e1'' \<rparr>"
        and newId = "''r2''" and w = exampleWorld and u = "''u1''" and t = 2800000
        and ev = exampleEvent and existing = exampleReminder] ev ins rm
    by simp
  have ev0: "find (\<lambda>e. ev_id e = ''e1'' \<and> ev_userId e = ''u1'') (events (exampleWorld\<lparr> reminders := [] \<rparr>)) = Some exampleEvent"
    using ev by simp
  have a7: "fst (createReminder (Some ''u1'') \<lparr> reminderTime = Some 2800000, eventId = ''e1'' \<rparr> ''r2''
          (exampleWorld\<lparr> reminders := [] \<rparr>)) =
     Inr \<lparr> rem_id = ''r2'', rem_reminderTime = 2800000, rem_eventId = ''e1'', rem_userId = ''u1'' \<rparr> \<and>
   createReminder (Some ''u1'') \<lparr> reminderTime = Some 2800000, eventId = ''e1'' \<rparr> ''r3''
       (snd (createReminder (Some ''u1'') \<lparr> reminderTime = Some 2800000, eventId = ''e1'' \<rparr> ''r2''
          (exampleWorld\<lparr> reminders := [] \<rparr>))) =
     (Inl DuplicateReminder,
      snd (createReminder (Some ''u1'') \<lparr> reminderTime = Some 2800000, eventId = ''e1'' \<rparr> ''r2''
          (exampleWorld\<lparr> reminders := [] \<rparr>)))"
    using createReminder_check_order[where data = "\<lparr> reminderTime = Some 2800000, eventId = ''e1'' \<rparr>"
        and newId = "''r2''" and w = "exampleWorld\<lparr> reminders := [] \<rparr>" and u = "''u1''" and t = 2800000
        and ev = exampleEvent and newId' = "''r3''"] ev0 ins
    by (simp add: Let_def)
  show ?thesis using a1 a2 a3 a4 a5 a6 a7 by blast
qed

subsection \<open>The event that updateReminder checks\<close>

lemma find_SomeD: "find P xs = Some x \<Longrightarrow> P x \<and> x \<in> set xs"
  by (induction xs) (auto split: if_splits)

lemma find_updateReminderRow_owner:
  "find (\<lambda>x. rem_id x = i \<and> rem_userId x = u) (updateReminderRow j t rows) =
     map_option (\<lambda>x. if rem_id x = j then x\<lparr> rem_reminderTime := t \<rparr> else x)
       (find (\<lambda>x. rem_id x = i \<and> rem_userId x = u) rows)"
  by (induction rows) (auto simp: updateReminderRow_def)

lemma find_updateReminderRow_event:
  "find (\<lambda>x. rem_eventId x = e \<and> rem_userId x = u) (updateReminderRow j t rows) =
     map_option (\<lambda>x. if rem_id x = j then x\<lparr> rem_reminderTime := t \<rparr> else x)
       (find (\<lambda>x. rem_eventId x = e \<and> rem_userId x = u) rows)"
  by (induction rows) (auto simp: updateReminderRow_def)

text \<open>
  C8. \<^verbatim>\<open>updateReminder\<close> looks up the event named by the \<^verbatim>\<open>eventId\<close> of its input, and checks the
  window against that event's date: whenever the caller owns such an event (event ids are
  issued by the store and are not empty), the input's reminder time is a valid date inside
  the window of that event, and the caller owns a reminder of the given id, the update
  succeeds and the stored reminder gets the input's reminder time. Nothing relates the
  event of the stored reminder to the input's \<^verbatim>\<open>eventId\<close>.
\<close>

theorem updateReminder_checks_the_input_event:
  assumes ev: "find (\<lambda>e. ev_id e = eventId data \<and> ev_userId e = u) (events w) = Some E"
    and ne: "eventId data \<noteq> []"
    and tm: "reminderTime data = Some t"
    and win: "\<not> outsideWindow (ev_date E) t"
    and rm: "find (\<lambda>x. rem_id x = rid \<and> rem_userId x = u) (reminders w) = Some r"
  shows "let res = updateReminder (Some u) rid data w
         in fst res = Inr (r\<lparr> rem_reminderTime := t \<rparr>) \<and>
            find (\<lambda>x. rem_id x = rid \<and> rem_userId x = u) (reminders (snd res)) =
              Some (r\<lparr> rem_reminderTime := t \<rparr>) \<and>
            events (snd res) = events w \<and>
            map_of (jobs (service (snd res))) rid =
              map_option (\<lambda>j. j\<lparr> job_reminderTime := t, job_status := pending \<rparr>)
                (map_of (jobs (service w)) rid)"
proof -
  have sch: "reminderSchema data = Inr (eventId data, t)"
    using ne tm by (simp add: reminderSchema_def)
  have rid: "rem_id r = rid" using find_SomeD[OF rm] by simp
  have res: "updateReminder (Some u) rid data w =
      (Inr (r\<lparr> rem_reminderTime := t \<rparr>),
       w\<lparr> reminders := updateReminderRow rid t (reminders w),
          service := service_updateReminder rid t (service w) \<rparr>)"
    unfolding updateReminder_def
    by (simp only: option.case sch sum.case prod.case ev win if_False rm Let_def)
      (simp add: rid)
  have f: "find (\<lambda>x. rem_id x = rid \<and> rem_userId x = u) (updateReminderRow rid t (reminders w)) =
             Some (r\<lparr> rem_reminderTime := t \<rparr>)"
    unfolding find_updateReminderRow_owner rm by (simp add: rid)
  have j: "map_of (jobs (service_updateReminder rid t (service w))) rid =
             map_option (\<lambda>j. j\<lparr> job_reminderTime := t, job_status := pending \<rparr>)
               (map_of (jobs (service w)) rid)"
    by (simp add: service_updateReminder_def AList.map_of_map_entry split: option.splits)
  show ?thesis unfolding Let_def res using f j by simp
qed

theorem updateReminder_checks_the_input_event_witness:
  "rem_eventId exampleReminder = ''e1'' \<and> ''e1'' \<noteq> ''e2'' \<and>
   \<not> outsideWindow (ev_date otherEvent) 49000000 \<and>
   outsideWindow (ev_date exampleEvent) 49000000 \<and>
   fst (updateReminder (Some ''u1'') ''r1'' \<lparr> reminderTime = Some 49000000, eventId = ''e2'' \<rparr>
          (exampleWorld\<lparr> events := [exampleEvent, otherEvent] \<rparr>)) =
     Inr (exampleReminder\<lparr> rem_reminderTime := 49000000 \<rparr>) \<and>
   find (\<lambda>x. rem_id x = ''r1'' \<and> rem_userId x = ''u1'')
     (reminders (snd (updateReminder (Some ''u1'') ''r1'' \<lparr> reminderTime = Some 49000000, eventId = ''e2'' \<rparr>
          (exampleWorld\<lparr> events := [exampleEvent, otherEvent] \<rparr>)))) =
     Some (exampleReminder\<lparr> rem_reminderTime := 49000000 \<rparr>)"
proof -
  let ?w = "exampleWorld\<lparr> events := [exampleEvent, otherEvent] \<rparr>"
  let ?d = "\<lparr> reminderTime = Some 49000000, eventId = ''e2'' \<rparr>"
  have h1: "find (\<lambda>e. ev_id e = eventId ?d \<and> ev_userId e = ''u1'') (events ?w) = Some otherEvent"
    by (simp add: exampleEvent_def otherEvent_def)
  have h2: "eventId ?d \<noteq> []" by simp
  have h3: "reminderTime ?d = Some 49000000" by simp
  have h4: "\<not> outsideWindow (ev_date otherEvent) 49000000"
    by (simp add: outsideWindow_def fifteenMinutes_def sevenDays_def otherEvent_def)
  have h5: "find (\<lambda>x. rem_id x = ''r1'' \<and> rem_userId x = ''u1'') (reminders ?w) = Some exampleReminder"
    by (simp add: exampleWorld_def exampleReminder_def)
  have o: "outsideWindow (ev_date exampleEvent) 49000000"
    by (simp add: outsideWindow_def fifteenMinutes_def sevenDays_def exampleEvent_def)
  have e: "rem_eventId exampleReminder = ''e1''" by (simp add: exampleReminder_def)
  show ?thesis
    using updateReminder_checks_the_input_event[OF h1 h2 h3 h4 h5] h4 o e
    by (simp add: Let_def)
qed

subsection \<open>The legacy action and the service\<close>

text \<open>
  C9. Whenever \<^verbatim>\<open>createOrUpdateReminder\<close> succeeds, the reminder of the event and user is the
  returned one, created or with its reminder time updated, and the reminder service (job
  table and timeouts) is exactly what it was. So a reminder that it creates under an id
  unknown to the job table has no job.
\<close>

theorem createOrUpdateReminder_leaves_service_alone:
  assumes ok: "createOrUpdateReminder session rawData newId w = (Inr r, w')"
  shows "service w' = service w \<and> events w' = events w \<and>
         (\<exists>u t. session = Some u \<and> reminderTime rawData = Some t \<and>
            rem_reminderTime r = t \<and> rem_eventId r = eventId rawData \<and> rem_userId r = u \<and>
            find (\<lambda>x. rem_eventId x = eventId rawData \<and> rem_userId x = u) (reminders w') = Some r \<and>
            (case find (\<lambda>x. rem_eventId x = eventId rawData \<and> rem_userId x = u) (reminders w) of
               Some existingReminder \<Rightarrow>
                 r = existingReminder\<lparr> rem_reminderTime := t \<rparr> \<and>
                 reminders w' = updateReminderRow (rem_id existingReminder) t (reminders w)
             | None \<Rightarrow>
                 rem_id r = newId \<and> reminders w' = reminders w @ [r] \<and>
                 (map_of (jobs (service w)) newId = None \<longrightarrow>
                    map_of (jobs (service w')) (rem_id r) = None)))"
proof -
  obtain u where s: "session = Some u"
    using ok by (cases session) (auto simp: createOrUpdateReminder_def)
  obtain e t where sch: "reminderSchema rawData = Inr (e, t)"
    using ok s by (auto simp: createOrUpdateReminder_def split: sum.splits)
  have e: "e = eventId rawData" and t: "reminderTime rawData = Some t"
    using sch by (auto simp: reminderSchema_def split: if_splits option.splits)
  obtain ev where ev: "find (\<lambda>x. ev_id x = e \<and> ev_userId x = u) (events w) = Some ev"
    using ok s sch by (auto simp: createOrUpdateReminder_def split: option.splits)
  have win: "\<not> outsideWindow (ev_date ev) t"
    using ok s sch ev by (auto simp: createOrUpdateReminder_def split: if_splits)
  show ?thesis
  proof (cases "find (\<lambda>x. rem_eventId x = e \<and> rem_userId x = u) (reminders w)")
    case None
    then have "r = \<lparr> rem_id = newId, rem_reminderTime = t, rem_eventId = e, rem_userId = u \<rparr>"
      and "w' = w\<lparr> reminders := reminders w @ [r] \<rparr>"
      using ok s sch ev win by (auto simp: createOrUpdateReminder_def Let_def)
    then show ?thesis
      using None s t e by (simp add: find_append_None)
  next
    case (Some ex)
    then have r: "r = ex\<lparr> rem_reminderTime := t \<rparr>"
      and w': "w' = w\<lparr> reminders := updateReminderRow (rem_id ex) t (reminders w) \<rparr>"
      using ok s sch ev win by (auto simp: createOrUpdateReminder_def Let_def)
    have exp: "rem_eventId ex = e \<and> rem_userId ex = u" using Some by (auto simp: find_Some_iff)
    show ?thesis
      using Some s t e r w' exp by (simp add: find_updateReminderRow_event)
  qed
qed

theorem createOrUpdateReminder_leaves_service_alone_witness:
  "createOrUpdateReminder (Some ''u1'') \<lparr> reminderTime = Some 2800000, eventId = ''e1'' \<rparr> ''r2''
       (exampleWorld\<lparr> reminders := [], service := \<lparr> jobs = [], timeouts = [] \<rparr> \<rparr>) =
     (Inr \<lparr> rem_id = ''r2'', rem_reminderTime = 2800000, rem_eventId = ''e1'', rem_userId = ''u1'' \<rparr>,
      exampleWorld\<lparr> reminders := [\<lparr> rem_id = ''r2'', rem_reminderTime = 2800000,
                                       rem_eventId = ''e1'', rem_userId = ''u1'' \<rparr>],
                    service := \<lparr> jobs = [], timeouts = [] \<rparr> \<rparr>) \<and>
   service (exampleWorld\<lparr> reminders := [\<lparr> rem_id = ''r2'', rem_reminderTime = 2800000,
                                       rem_eventId = ''e1'', rem_userId = ''u1'' \<rparr>],
                    service := \<lparr> jobs = [], timeouts = [] \<rparr> \<rparr>) =
     service (exampleWorld\<lparr> reminders := [], service := \<lparr> jobs = [], timeouts = [] \<rparr> \<rparr>) \<and>
   map_of (jobs (service (exampleWorld\<lparr> reminders := [\<lparr> rem_id = ''r2'', rem_reminderTime = 2800000,
                                       rem_eventId = ''e1'', rem_userId = ''u1'' \<rparr>],
                    service := \<lparr> jobs = [], timeouts = [] \<rparr> \<rparr>))) ''r2'' = None"
proof -
  have run: "createOrUpdateReminder (Some ''u1'') \<lparr> reminderTime = Some 2800000, eventId = ''e1'' \<rparr> ''r2''
       (exampleWorld\<lparr> reminders := [], service := \<lparr> jobs = [], timeouts = [] \<rparr> \<rparr>) =
     (Inr \<lparr> rem_id = ''r2'', rem_reminderTime = 2800000, rem_eventId = ''e1'', rem_userId = ''u1'' \<rparr>,
      exampleWorld\<lparr> reminders := [\<lparr> rem_id = ''r2'', rem_reminderTime = 2800000,
                                       rem_eventId = ''e1'', rem_userId = ''u1'' \<rparr>],
                    service := \<lparr> jobs = [], timeouts = [] \<rparr> \<rparr>)"
    by (simp add: createOrUpdateReminder_def reminderSchema_def exampleWorld_def exampleEvent_def
        outsideWindow_def fifteenMinutes_def sevenDays_def Let_def)
  show ?thesis
    using createOrUpdateReminder_leaves_service_alone[OF run] run
    by simp
qed

end
